theory Spec2Isabelle
  imports Complex_Main "HOL-Library.Word" "HOL-Library.Char_ord"
begin

section \<open>JavaScript values\<close>

text \<open>
  A JavaScript number is modelled by an exact real or by \<open>NaN\<close>. Rounding error of the
  IEEE doubles and the infinities are outside the model: the program multiplies and divides by
  the literal 100 only, and adds values that carry two decimals. A product of two
  confidences can fall on the other side of a rounding tie in doubles (0.3 times 0.75 is a
  little below 0.225 there and rounds to 0.22, the exact product rounds to 0.23); no
  statement below is about such a rounded confidence.
\<close>

datatype number = Num real | NaN

fun js_times :: "number \<Rightarrow> number \<Rightarrow> number" where
  "js_times (Num a) (Num b) = Num (a * b)"
| "js_times _ _ = NaN"

fun js_plus :: "number \<Rightarrow> number \<Rightarrow> number" where
  "js_plus (Num a) (Num b) = Num (a + b)"
| "js_plus _ _ = NaN"

text \<open>Division; the only divisor in the program is the literal 100.\<close>

fun js_divide :: "number \<Rightarrow> number \<Rightarrow> number" where
  "js_divide (Num a) (Num b) = (if b = 0 then NaN else Num (a / b))"
| "js_divide _ _ = NaN"

text \<open>\<open>Math.round\<close>: the nearest integer, a tie going up.\<close>

fun Math_round :: "number \<Rightarrow> number" where
  "Math_round (Num x) = Num (of_int \<lfloor>x + 1 / 2\<rfloor>)"
| "Math_round NaN = NaN"

text \<open>
  What a property read \<open>obj[key]\<close> on the footprint table can give: a number (an own
  property), a function or object inherited from \<open>Object.prototype\<close>, or
  \<open>undefined\<close>.
\<close>

datatype jsvalue = JNumber number | JObject | JUndefined

fun truthy :: "jsvalue \<Rightarrow> bool" where
  "truthy (JNumber (Num x)) = (x \<noteq> 0)"
| "truthy (JNumber NaN) = False"
| "truthy JObject = True"
| "truthy JUndefined = False"

text \<open>The conversion applied by \<open>*\<close> to its operand.\<close>

fun ToNumber :: "jsvalue \<Rightarrow> number" where
  "ToNumber (JNumber n) = n"
| "ToNumber JObject = NaN"
| "ToNumber JUndefined = NaN"

text \<open>\<open>a || b\<close> where \<open>a\<close> is an optional number: \<open>undefined\<close>, 0 and NaN are falsy.\<close>

definition logical_or :: "number option \<Rightarrow> number \<Rightarrow> number" where
  "logical_or a b = (case a of None \<Rightarrow> b | Some n \<Rightarrow> if truthy (JNumber n) then n else b)"

section \<open>Strings\<close>

text \<open>
  A JavaScript string is modelled by a \<^typ>\<open>string\<close>: each character stands for one UTF-16
  code unit below 256, so the model covers the strings of Latin-1 characters, with
  \<^const>\<open>length\<close> the JavaScript \<open>length\<close>.
\<close>

text \<open>The class \<open>\s\<close>, which is also what \<open>trim\<close> removes: TAB, LF, VT, FF, CR, space, NBSP.\<close>

definition is_whitespace :: "char \<Rightarrow> bool" where
  "is_whitespace c = (c \<in> set [CHR 0x09, CHR 0x0A, CHR 0x0B, CHR 0x0C, CHR 0x0D, CHR 0x20, CHR 0xA0])"

text \<open>The characters that \<open>.\<close> does not match.\<close>

definition is_line_terminator :: "char \<Rightarrow> bool" where
  "is_line_terminator c = (c \<in> set [CHR 0x0A, CHR 0x0D])"

definition is_lower :: "char \<Rightarrow> bool" where
  "is_lower c = (CHR ''a'' \<le> c \<and> c \<le> CHR ''z'')"

definition is_upper :: "char \<Rightarrow> bool" where
  "is_upper c = (CHR ''A'' \<le> c \<and> c \<le> CHR ''Z'')"

definition is_digit :: "char \<Rightarrow> bool" where
  "is_digit c = (CHR ''0'' \<le> c \<and> c \<le> CHR ''9'')"

text \<open>The class \<open>\w\<close>, on which \<open>\b\<close> rests.\<close>

definition is_word_char :: "char \<Rightarrow> bool" where
  "is_word_char c = (is_lower c \<or> is_upper c \<or> is_digit c \<or> c = CHR ''_'')"

text \<open>
  \<open>toLowerCase\<close>: the letters A to Z and the capital letters of Latin-1 (0xC0 to 0xDE
  without 0xD7, the multiplication sign) go to the small letter 0x20 above them; every other
  character of the model stays.
\<close>

definition capital_letters :: string where
  "capital_letters = ''ABCDEFGHIJKLMNOPQRSTUVWXYZ'' @
     [CHR 0xC0, CHR 0xC1, CHR 0xC2, CHR 0xC3, CHR 0xC4, CHR 0xC5, CHR 0xC6, CHR 0xC7,
      CHR 0xC8, CHR 0xC9, CHR 0xCA, CHR 0xCB, CHR 0xCC, CHR 0xCD, CHR 0xCE, CHR 0xCF,
      CHR 0xD0, CHR 0xD1, CHR 0xD2, CHR 0xD3, CHR 0xD4, CHR 0xD5, CHR 0xD6,
      CHR 0xD8, CHR 0xD9, CHR 0xDA, CHR 0xDB, CHR 0xDC, CHR 0xDD, CHR 0xDE]"

definition small_letters :: string where
  "small_letters = ''abcdefghijklmnopqrstuvwxyz'' @
     [CHR 0xE0, CHR 0xE1, CHR 0xE2, CHR 0xE3, CHR 0xE4, CHR 0xE5, CHR 0xE6, CHR 0xE7,
      CHR 0xE8, CHR 0xE9, CHR 0xEA, CHR 0xEB, CHR 0xEC, CHR 0xED, CHR 0xEE, CHR 0xEF,
      CHR 0xF0, CHR 0xF1, CHR 0xF2, CHR 0xF3, CHR 0xF4, CHR 0xF5, CHR 0xF6,
      CHR 0xF8, CHR 0xF9, CHR 0xFA, CHR 0xFB, CHR 0xFC, CHR 0xFD, CHR 0xFE]"

definition toLowerCase_char :: "char \<Rightarrow> char" where
  "toLowerCase_char c =
     (case map_of (zip capital_letters small_letters) c of Some l \<Rightarrow> l | None \<Rightarrow> c)"

definition toLowerCase :: "string \<Rightarrow> string" where
  "toLowerCase s = map toLowerCase_char s"

definition trimStart :: "string \<Rightarrow> string" where
  "trimStart s = dropWhile is_whitespace s"

definition trimEnd :: "string \<Rightarrow> string" where
  "trimEnd s = rev (dropWhile is_whitespace (rev s))"

definition trim :: "string \<Rightarrow> string" where
  "trim s = trimEnd (trimStart s)"

definition startsWith :: "string \<Rightarrow> string \<Rightarrow> bool" where
  "startsWith s p = (take (length p) s = p)"

text \<open>\<open>a.includes(b)\<close>: \<open>b\<close> occurs in \<open>a\<close> as a contiguous run.\<close>

fun string_includes :: "string \<Rightarrow> string \<Rightarrow> bool" where
  "string_includes [] b = (b = [])"
| "string_includes (x # xs) b = (startsWith (x # xs) b \<or> string_includes xs b)"

section \<open>normalizeIngredientName\<close>

text \<open>\<open>.replace(/[^a-z0-9\s]/g, '')\<close>\<close>

definition strip_non_alnum :: "string \<Rightarrow> string" where
  "strip_non_alnum s = filter (\<lambda>c. is_lower c \<or> is_digit c \<or> is_whitespace c) s"

text \<open>
  \<open>.replace(/\s+/g, ' ')\<close>: every maximal run of whitespace becomes one space. The flag
  says whether the previous character belonged to a run already replaced.
\<close>

fun collapse_from :: "bool \<Rightarrow> string \<Rightarrow> string" where
  "collapse_from in_run [] = []"
| "collapse_from in_run (c # cs) =
     (if is_whitespace c
      then (if in_run then collapse_from True cs else CHR '' '' # collapse_from True cs)
      else c # collapse_from False cs)"

definition collapse_whitespace :: "string \<Rightarrow> string" where
  "collapse_whitespace s = collapse_from False s"

text \<open>
  \<open>.replace(/\b(fresh|dried|raw|cooked|organic|ground)\b/g, '')\<close>. \<open>\b\<close> holds between
  two positions when exactly one of the neighbours is a word character. The scan goes left
  to right; at a position the alternatives are tried in their order, and a match is deleted
  and the scan resumes behind it.
\<close>

definition qualifiers :: "string list" where
  "qualifiers = [''fresh'', ''dried'', ''raw'', ''cooked'', ''organic'', ''ground'']"

definition word_boundary :: "bool \<Rightarrow> string \<Rightarrow> bool" where
  "word_boundary prev_is_word rest =
     (prev_is_word \<noteq> (case rest of [] \<Rightarrow> False | c # _ \<Rightarrow> is_word_char c))"

definition qualifier_match_at :: "bool \<Rightarrow> string \<Rightarrow> nat option" where
  "qualifier_match_at prev_is_word rest =
     (if word_boundary prev_is_word rest
      then (case filter (\<lambda>q. startsWith rest q \<and> word_boundary True (drop (length q) rest)) qualifiers of
              [] \<Rightarrow> None
            | q # _ \<Rightarrow> Some (length q))
      else None)"

text \<open>The second argument counts the characters of the current match still to delete.\<close>

fun remove_from :: "bool \<Rightarrow> nat \<Rightarrow> string \<Rightarrow> string" where
  "remove_from prev_is_word k [] = []"
| "remove_from prev_is_word (Suc k) (c # cs) = remove_from (is_word_char c) k cs"
| "remove_from prev_is_word 0 (c # cs) =
     (case qualifier_match_at prev_is_word (c # cs) of
        Some l \<Rightarrow> remove_from (is_word_char c) (l - 1) cs
      | None \<Rightarrow> c # remove_from (is_word_char c) 0 cs)"

definition remove_qualifiers :: "string \<Rightarrow> string" where
  "remove_qualifiers s = remove_from False 0 s"

definition normalizeIngredientName :: "string \<Rightarrow> string" where
  "normalizeIngredientName name =
     trim (remove_qualifiers (collapse_whitespace (strip_non_alnum (trim (toLowerCase name)))))"

section \<open>The footprint table and findBestIngredientMatch\<close>

text \<open>An object with numeric own properties, as the list of its entries in \<open>Object.keys\<close> order.\<close>

type_synonym database = "(string \<times> real) list"

definition CARBON_FOOTPRINT_DB :: database where
  "CARBON_FOOTPRINT_DB =
    [(''beef'', 60.0), (''lamb'', 39.2), (''pork'', 12.1), (''chicken'', 6.9), (''fish'', 6.1),
     (''shrimp'', 18.0), (''eggs'', 4.2), (''milk'', 3.2), (''cheese'', 13.5), (''butter'', 23.8),
     (''rice'', 4.0), (''wheat'', 1.4), (''bread'', 1.6), (''pasta'', 1.1), (''potatoes'', 0.5),
     (''tomatoes'', 2.1), (''onions'', 0.5), (''carrots'', 0.4), (''olive oil'', 5.4),
     (''vegetable oil'', 3.2), (''salt'', 0.1), (''sugar'', 1.8), (''beans'', 2.0),
     (''lentils'', 1.9), (''tofu'', 3.0), (''nuts'', 2.3), (''spices'', 1.0), (''unknown'', 2.0)]"

text \<open>
  The table is an object literal, so a read of a name it does not own goes on to
  \<open>Object.prototype\<close>, whose properties are functions (and, for \<open>__proto__\<close>, an object).
\<close>

definition Object_prototype_properties :: "string list" where
  "Object_prototype_properties =
    [''constructor'', ''hasOwnProperty'', ''isPrototypeOf'', ''propertyIsEnumerable'',
     ''toLocaleString'', ''toString'', ''valueOf'', ''__defineGetter__'', ''__defineSetter__'',
     ''__lookupGetter__'', ''__lookupSetter__'', ''__proto__'']"

text \<open>\<open>database[k]\<close>\<close>

definition property_get :: "database \<Rightarrow> string \<Rightarrow> jsvalue" where
  "property_get database k =
     (case map_of database k of
        Some v \<Rightarrow> JNumber (Num v)
      | None \<Rightarrow> if k \<in> set Object_prototype_properties then JObject else JUndefined)"

record match =
  key :: string
  match_confidence :: number

text \<open>\<open>(a, b) => a.length > b.length ? a : b\<close>\<close>

definition longer :: "string \<Rightarrow> string \<Rightarrow> string" where
  "longer a b = (if length a > length b then a else b)"

text \<open>
  The declared result type admits \<open>null\<close>, which no path returns. \<open>reduce\<close> without
  a start value folds from the first element; it is reached on a non-empty array only.
\<close>

text \<open>
  \<open>dbKeys.filter(key => normalized.includes(key) || key.includes(normalized))\<close>, with
  \<open>dbKeys = Object.keys(database)\<close>
\<close>

definition partialMatches :: "string \<Rightarrow> database \<Rightarrow> string list" where
  "partialMatches normalized database =
     filter (\<lambda>k. string_includes normalized k \<or> string_includes k normalized) (map fst database)"

definition findBestIngredientMatch :: "string \<Rightarrow> database \<Rightarrow> match option" where
  "findBestIngredientMatch ingredientName database =
     (let normalized = normalizeIngredientName ingredientName in
      if truthy (property_get database normalized)
      then Some \<lparr>key = normalized, match_confidence = Num 1.0\<rparr>
      else
        (case partialMatches normalized database of
           a # rest \<Rightarrow> Some \<lparr>key = foldl longer a rest, match_confidence = Num 0.8\<rparr>
         | [] \<Rightarrow> Some \<lparr>key = ''unknown'', match_confidence = Num 0.3\<rparr>))"

section \<open>calculateCarbonFootprint\<close>

record raw_ingredient =
  raw_name :: string
  raw_confidence :: "number option"

record Ingredient =
  name :: string
  carbon_kg :: number
  confidence :: number

datatype source = Text | Image

record metadata =
  processing_time_ms :: number
  source :: source

record CarbonEstimate =
  dish :: string
  estimated_carbon_kg :: number
  ingredients :: "Ingredient list"
  metadata :: metadata

text \<open>
  The locals \<open>carbonValue\<close> and \<open>confidence\<close> of the \<open>map\<close> callback, as they stand
  before the rounding of the returned object.
\<close>

definition carbon_mapping :: "raw_ingredient \<Rightarrow> jsvalue \<times> number" where
  "carbon_mapping ingredient =
     (let normalizedName = normalizeIngredientName (raw_name ingredient);
          m = findBestIngredientMatch normalizedName CARBON_FOOTPRINT_DB
      in case m of
           None \<Rightarrow> (property_get CARBON_FOOTPRINT_DB ''unknown'', Num 0.3)
         | Some m \<Rightarrow>
             (property_get CARBON_FOOTPRINT_DB (key m),
              js_times (match_confidence m) (logical_or (raw_confidence ingredient) (Num 0.8))))"

text \<open>\<open>Math.round(x * 100) / 100\<close>\<close>

definition round2 :: "number \<Rightarrow> number" where
  "round2 x = js_divide (Math_round (js_times x (Num 100))) (Num 100)"

definition process_ingredient :: "raw_ingredient \<Rightarrow> Ingredient" where
  "process_ingredient ingredient =
     (case carbon_mapping ingredient of
        (carbonValue, confidenceValue) \<Rightarrow>
          \<lparr>name = raw_name ingredient,
           carbon_kg = round2 (ToNumber carbonValue),
           confidence = round2 confidenceValue\<rparr>)"

text \<open>
  \<open>calculationDuration\<close>, read from the clock in the source, is an argument here.
\<close>

definition calculateCarbonFootprint ::
  "string \<Rightarrow> raw_ingredient list \<Rightarrow> source \<Rightarrow> number option \<Rightarrow> number \<Rightarrow> CarbonEstimate" where
  "calculateCarbonFootprint dishName rawIngredients src processingTimeMs calculationDuration =
     (let processedIngredients = map process_ingredient rawIngredients;
          totalCarbon = foldl (\<lambda>sum ingredient. js_plus sum (carbon_kg ingredient)) (Num 0) processedIngredients
      in \<lparr>dish = dishName,
          estimated_carbon_kg = round2 totalCarbon,
          ingredients = processedIngredients,
          metadata = \<lparr>processing_time_ms =
                        (case processingTimeMs of
                           Some p \<Rightarrow> if truthy (JNumber p)
                                     then Math_round (js_plus p calculationDuration)
                                     else Math_round calculationDuration
                         | None \<Rightarrow> Math_round calculationDuration),
                      source = src\<rparr>\<rparr>)"

text \<open>The sum of a list of numbers, as \<open>+\<close> adds them.\<close>

definition js_sum :: "number list \<Rightarrow> number" where
  "js_sum xs = foldr js_plus xs (Num 0)"

section \<open>Validation middleware\<close>

text \<open>
  The middleware hands a \<open>ValidationError\<close> to \<open>next\<close> or calls \<open>next()\<close>; the
  model returns the error (one constructor for each message of the source) or the accepted
  value.
\<close>

datatype ValidationError =
    Body_not_object \<comment> \<open>Request body must be a valid JSON object\<close>
  | Body_too_large \<comment> \<open>Request body is too large\<close>
  | Too_many_properties \<comment> \<open>Request body has too many properties\<close>
  | Invalid_request_data "(string \<times> string) list"
      \<comment> \<open>Invalid request data, with the field and message of each detail\<close>
  | No_image_file \<comment> \<open>No image file provided\<close>
  | Invalid_file_type string \<comment> \<open>Invalid file type, with the type received\<close>
  | File_size_exceeds \<comment> \<open>File size exceeds maximum allowed size\<close>
  | File_empty \<comment> \<open>Uploaded file is empty or corrupted\<close>
  | Filename_too_long \<comment> \<open>Filename is too long\<close>
  | Invalid_file_extension \<comment> \<open>Invalid file extension\<close>
  | File_too_small \<comment> \<open>File is too small to be a valid image\<close>
  | Header_mismatch \<comment> \<open>File header does not match declared image type\<close>

subsection \<open>validateTextEstimation\<close>

text \<open>
  A literal of a case-insensitive pattern matches at the head of \<open>s\<close>. The literals are
  ASCII, and no character above 127 folds onto an ASCII one.
\<close>

definition startsWith_ci :: "string \<Rightarrow> string \<Rightarrow> bool" where
  "startsWith_ci s p = (toLowerCase (take (length p) s) = toLowerCase p)"

text \<open>
  The shapes of the patterns in \<open>suspiciousPatterns\<close>: a literal, \<open>A.*B\<close>, and
  \<open>A\s*B\<close>, all sought anywhere in the string.
\<close>

datatype pattern = Literal string | Dot_star string string | Space_star string string

text \<open>\<open>.*B\<close> at the head of \<open>s\<close>: \<open>.\<close> takes any character but a line terminator.\<close>

fun dot_star_then :: "string \<Rightarrow> string \<Rightarrow> bool" where
  "dot_star_then b [] = startsWith_ci [] b"
| "dot_star_then b (c # cs) =
     (startsWith_ci (c # cs) b \<or> (\<not> is_line_terminator c \<and> dot_star_then b cs))"

fun matches_here :: "pattern \<Rightarrow> string \<Rightarrow> bool" where
  "matches_here (Literal a) s = startsWith_ci s a"
| "matches_here (Dot_star a b) s = (startsWith_ci s a \<and> dot_star_then b (drop (length a) s))"
| "matches_here (Space_star a b) s =
     (startsWith_ci s a \<and> startsWith_ci (dropWhile is_whitespace (drop (length a) s)) b)"

text \<open>\<open>pattern.test(value)\<close>\<close>

fun test :: "pattern \<Rightarrow> string \<Rightarrow> bool" where
  "test p [] = matches_here p []"
| "test p (c # cs) = (matches_here p (c # cs) \<or> test p cs)"

text \<open>
  The array as the source has it. Its fifteenth regular expression literal runs from
  \<open>/\.\.\\\/g\<close> to \<open>passwd/i\<close>, so it is one literal pattern (0x5C is the backslash).
\<close>

definition suspiciousPatterns :: "pattern list" where
  "suspiciousPatterns =
    [Literal ''<script'', Literal ''javascript:'', Literal ''onload='', Literal ''onerror='',
     Dot_star ''SELECT'' ''FROM'', Dot_star ''UNION'' ''SELECT'', Dot_star ''DROP'' ''TABLE'',
     Dot_star ''INSERT'' ''INTO'', Dot_star ''DELETE'' ''FROM'', Dot_star ''UPDATE'' ''SET'',
     Space_star ''exec'' ''('', Space_star ''eval'' ''('', Space_star ''function'' ''('',
     Literal ''../'', Literal (''..'' @ [CHR 0x5C] @ ''/g, /etc/passwd''),
     Literal ''__proto__'', Literal ''prototype'', Literal ''constructor'']"

text \<open>\<open>suspiciousPatterns.some(pattern => pattern.test(value))\<close>\<close>

definition is_suspicious :: "string \<Rightarrow> bool" where
  "is_suspicious v = list_ex (\<lambda>p. test p v) suspiciousPatterns"

text \<open>The literal with which a pattern begins.\<close>

definition first_literal :: "pattern \<Rightarrow> string" where
  "first_literal p = (case p of Literal a \<Rightarrow> a | Dot_star a b \<Rightarrow> a | Space_star a b \<Rightarrow> a)"

text \<open>\<open>/(.)\1{50,}/.test(value)\<close>: some character, no line terminator, and 50 more of it.\<close>

fun repeatedChars :: "string \<Rightarrow> bool" where
  "repeatedChars [] = False"
| "repeatedChars (c # cs) =
     ((\<not> is_line_terminator c \<and> 50 \<le> length (takeWhile (\<lambda>d. d = c) cs)) \<or> repeatedChars cs)"

text \<open>
  The class of the \<open>.pattern(...)\<close> rule. Of its ranges above ASCII only
  \<open>\u00C0-\u017F\<close> meets the characters of the model (0x22 and 0x27 are the quotes).
\<close>

definition allowed_char :: "char \<Rightarrow> bool" where
  "allowed_char c =
     (is_lower c \<or> is_upper c \<or> is_digit c \<or> is_whitespace c \<or> c \<in> set ''-.,!?''
      \<or> c = CHR 0x27 \<or> c = CHR 0x22 \<or> c \<in> set ''()'' \<or> CHR 0xC0 \<le> c)"

definition matches_allowlist :: "string \<Rightarrow> bool" where
  "matches_allowlist v = (v \<noteq> [] \<and> list_all allowed_char v)"

datatype joi_code =
  String_empty | String_min | String_max | String_pattern_base
  | String_malicious | String_repeated | Any_required

text \<open>The \<open>.messages({...})\<close> of the schema.\<close>

fun messages :: "joi_code \<Rightarrow> string" where
  "messages String_empty = ''Dish name cannot be empty''"
| "messages String_min = ''Dish name must be at least 1 character long''"
| "messages String_max = ''Dish name cannot exceed 200 characters''"
| "messages String_pattern_base = ''Dish name contains invalid characters''"
| "messages String_malicious = ''Dish name contains potentially malicious content''"
| "messages String_repeated = ''Dish name contains excessive repeated characters''"
| "messages Any_required = ''Dish name is required''"

text \<open>The function given to \<open>.custom(...)\<close>.\<close>

definition custom :: "string \<Rightarrow> joi_code + string" where
  "custom v =
     (if length (trim v) = 0 then Inl String_empty
      else if is_suspicious v then Inl String_malicious
      else if repeatedChars v then Inl String_repeated
      else Inr v)"

text \<open>
  The schema of \<open>dish\<close> on a string value. Joi refuses the empty string, then runs the
  rules in the order of their declaration (\<open>min\<close>, \<open>max\<close>, \<open>pattern\<close>,
  \<open>custom\<close>) and stops at the first that fails; it does not trim.
\<close>

definition textEstimationSchema :: "string \<Rightarrow> joi_code + string" where
  "textEstimationSchema v =
     (if v = [] then Inl String_empty
      else if length v < 1 then Inl String_min
      else if length v > 200 then Inl String_max
      else if \<not> matches_allowlist v then Inl String_pattern_base
      else custom v)"

text \<open>
  The length of \<open>JSON.stringify({dish: v})\<close>: eleven characters around the quoted
  string, in which the quote, the backslash and the five short escapes take two characters,
  the other controls six.
\<close>

definition JSON_quoted_length :: "char \<Rightarrow> nat" where
  "JSON_quoted_length c =
     (if c \<in> set [CHR 0x22, CHR 0x5C, CHR 0x08, CHR 0x09, CHR 0x0A, CHR 0x0C, CHR 0x0D] then 2
      else if c < CHR 0x20 then 6 else 1)"

definition JSON_stringify_length :: "string \<Rightarrow> nat" where
  "JSON_stringify_length v = 11 + sum_list (map JSON_quoted_length v)"

definition sanitizeTextInput :: "string \<Rightarrow> string" where
  "sanitizeTextInput input = take 200 (filter (\<lambda>c. c \<notin> set ''<>'') (trim input))"

text \<open>
  \<open>validateTextEstimation\<close> on a request whose body is the object \<open>{dish: v}\<close> with
  \<open>v\<close> a string: the body is an object, and \<open>keys\<close> is \<open>['dish']\<close>.
\<close>

definition validateTextEstimation :: "string \<Rightarrow> ValidationError + string" where
  "validateTextEstimation v =
     (let keys = [''dish''] in
      if JSON_stringify_length v > 10000 then Inl Body_too_large
      else if length keys > 10 then Inl Too_many_properties
      else (case textEstimationSchema v of
              Inl code \<Rightarrow> Inl (Invalid_request_data [(''dish'', messages code)])
            | Inr val \<Rightarrow> Inr (sanitizeTextInput val)))"

subsection \<open>validateImageUpload\<close>

record multer_file =
  buffer :: "8 word list option"
  mimetype :: string
  file_size :: nat
  originalname :: "string option"

definition allowedTypes :: "string list" where
  "allowedTypes = [''image/jpeg'', ''image/jpg'', ''image/png'', ''image/webp'']"

text \<open>The endings that \<open>suspiciousFilenames\<close> looks for, each as \<open>/\.ext$/i\<close>.\<close>

definition suspiciousFilenames :: "string list" where
  "suspiciousFilenames =
    [''.exe'', ''.bat'', ''.cmd'', ''.scr'', ''.pif'', ''.com'', ''.jar'', ''.php'', ''.jsp'',
     ''.asp'', ''.js'', ''.vbs'', ''.sh'', ''.py'']"

definition endsWith_ci :: "string \<Rightarrow> string \<Rightarrow> bool" where
  "endsWith_ci s e = startsWith_ci (rev s) (rev e)"

definition imageHeaders :: "(string \<times> 8 word list) list" where
  "imageHeaders =
    [(''image/jpeg'', [0xFF, 0xD8, 0xFF]),
     (''image/png'', [0x89, 0x50, 0x4E, 0x47]),
     (''image/webp'', [0x52, 0x49, 0x46, 0x46])]"

text \<open>
  \<open>header.every((byte, index) => fileHeader[index] === byte)\<close>; a read beyond the end
  of \<open>fileHeader\<close> gives \<open>undefined\<close>, which equals no byte.
\<close>

definition header_every :: "8 word list \<Rightarrow> 8 word list \<Rightarrow> bool" where
  "header_every header fileHeader =
     list_all (\<lambda>(byte, index). index < length fileHeader \<and> fileHeader ! index = byte)
       (zip header [0..<length header])"

definition isValidHeader :: "string \<Rightarrow> 8 word list \<Rightarrow> bool" where
  "isValidHeader mime fileHeader =
     list_ex (\<lambda>(type, header). if type = mime then header_every header fileHeader else False)
       imageHeaders"

text \<open>\<open>config.upload.maxFileSizeMB\<close>, a positive number (10 by default), is an argument.\<close>

definition validateImageUpload :: "real \<Rightarrow> multer_file option \<Rightarrow> ValidationError + unit" where
  "validateImageUpload maxFileSizeMB req_file =
     (case req_file of
        None \<Rightarrow> Inl No_image_file
      | Some f \<Rightarrow>
          if mimetype f \<notin> set allowedTypes then Inl (Invalid_file_type (mimetype f))
          else if real (file_size f) > maxFileSizeMB * 1024 * 1024 then Inl File_size_exceeds
          else (case buffer f of
                  None \<Rightarrow> Inl File_empty
                | Some buf \<Rightarrow>
                    if length buf = 0 then Inl File_empty
                    else if (case originalname f of None \<Rightarrow> False
                             | Some n \<Rightarrow> n \<noteq> [] \<and> length n > 255)
                    then Inl Filename_too_long
                    else if (case originalname f of None \<Rightarrow> False
                             | Some n \<Rightarrow> n \<noteq> [] \<and> list_ex (endsWith_ci n) suspiciousFilenames)
                    then Inl Invalid_file_extension
                    else if length buf < 100 then Inl File_too_small
                    else if \<not> isValidHeader (mimetype f) (take 4 buf) then Inl Header_mismatch
                    else Inr ()))"

section \<open>Properties of the footprint engine\<close>

subsection \<open>Sums\<close>

lemma js_plus_zero_right: "js_plus a (Num 0) = a"
  by (cases a) simp_all

lemma js_plus_zero_left: "js_plus (Num 0) a = a"
  by (cases a) simp_all

lemma js_plus_assoc: "js_plus (js_plus a b) c = js_plus a (js_plus b c)"
  by (cases a; cases b; cases c) simp_all

lemma foldl_js_plus: "foldl (\<lambda>s i. js_plus s (f i)) a xs = js_plus a (js_sum (map f xs))"
  by (induction xs arbitrary: a) (simp_all add: js_sum_def js_plus_zero_right js_plus_assoc)

lemma js_sum_Num: "js_sum (map Num xs) = Num (sum_list xs)"
  by (induction xs) (simp_all add: js_sum_def)

text \<open>
  C1. Whatever the dish name, the ingredient list and the source, the estimate lists the
  processed ingredients in input order, the \<open>carbon_kg\<close> of each is the looked-up value
  rounded to two decimals, and \<open>estimated_carbon_kg\<close> is the sum of these rounded values,
  rounded to two decimals again. The function has no failing path; on the empty list it
  returns the total 0 and no ingredients.
\<close>

theorem aggregator_sum_invariant:
  "ingredients (calculateCarbonFootprint d ings src p t) = map process_ingredient ings
   \<and> carbon_kg (process_ingredient i) = round2 (ToNumber (fst (carbon_mapping i)))
   \<and> estimated_carbon_kg (calculateCarbonFootprint d ings src p t)
       = round2 (js_sum (map carbon_kg (ingredients (calculateCarbonFootprint d ings src p t))))
   \<and> estimated_carbon_kg (calculateCarbonFootprint d [] src p t) = Num 0
   \<and> ingredients (calculateCarbonFootprint d [] src p t) = []"
  by (simp add: calculateCarbonFootprint_def Let_def foldl_js_plus js_plus_zero_left
      process_ingredient_def round2_def js_sum_def split: prod.split)

text \<open>The chicken and rice scenario: 6.9 + 4.0.\<close>

theorem aggregator_sum_invariant_witness:
  "estimated_carbon_kg
     (calculateCarbonFootprint ''Chicken Rice''
        [\<lparr>raw_name = ''chicken'', raw_confidence = Some (Num 0.9)\<rparr>,
         \<lparr>raw_name = ''rice'', raw_confidence = Some (Num 0.8)\<rparr>] Text None (Num 0))
   = Num 10.9"
proof -
  let ?r = "calculateCarbonFootprint ''Chicken Rice''
        [\<lparr>raw_name = ''chicken'', raw_confidence = Some (Num 0.9)\<rparr>,
         \<lparr>raw_name = ''rice'', raw_confidence = Some (Num 0.8)\<rparr>] Text None (Num 0)"
  have "estimated_carbon_kg ?r = round2 (js_sum (map carbon_kg (ingredients ?r)))"
    using aggregator_sum_invariant by blast
  also have "\<dots> = Num 10.9" by code_simp
  finally show ?thesis .
qed

subsection \<open>Confidence blending\<close>

text \<open>
  C3. An ingredient named chicken with the confidence 0 supplied: the name matches the
  table entry exactly (match confidence 1.0), and the confidence before rounding is
  1.0 times 0.8, because \<open>||\<close> takes the supplied 0 for an absent value. It is not 0.
\<close>

theorem zero_confidence_replaced:
  "findBestIngredientMatch ''chicken'' CARBON_FOOTPRINT_DB
     = Some \<lparr>key = ''chicken'', match_confidence = Num 1.0\<rparr>
   \<and> carbon_mapping \<lparr>raw_name = ''chicken'', raw_confidence = Some (Num 0)\<rparr>
     = (JNumber (Num 6.9), Num 0.8)"
  by code_simp

subsection \<open>The normalizer\<close>

text \<open>
  C4. The name \<open>rice fresh beans\<close> is normalized to \<open>rice  beans\<close>, with the two
  spaces that stood around the deleted qualifier, and normalizing that result closes the gap:
  the second application changes the string.
\<close>

theorem normalize_not_idempotent:
  "normalizeIngredientName ''rice fresh beans'' = ''rice  beans''
   \<and> normalizeIngredientName (normalizeIngredientName ''rice fresh beans'') = ''rice beans''"
  by code_simp

subsection \<open>The matcher\<close>

text \<open>
  The fold with \<^const>\<open>longer\<close> returns an element of greatest length, and everything
  behind it in the list is strictly shorter: among the longest it is the last.
\<close>

lemma foldl_longer_split:
  "\<exists>pre post. a # rest = pre @ foldl longer a rest # post
     \<and> (\<forall>x\<in>set pre. length x \<le> length (foldl longer a rest))
     \<and> (\<forall>x\<in>set post. length x < length (foldl longer a rest))"
proof (induction rest rule: rev_induct)
  case Nil
  show ?case by (rule exI [of _ "[]"], rule exI [of _ "[]"]) simp
next
  case (snoc b rest)
  let ?K = "foldl longer a rest"
  from snoc obtain pre post where split: "a # rest = pre @ ?K # post"
    and pre: "\<forall>x\<in>set pre. length x \<le> length ?K"
    and post: "\<forall>x\<in>set post. length x < length ?K"
    by blast
  show ?case
  proof (cases "length ?K > length b")
    case True
    then have res: "foldl longer a (rest @ [b]) = ?K" by (simp add: longer_def)
    have "a # rest @ [b] = pre @ ?K # (post @ [b])" using split by simp
    moreover have "\<forall>x\<in>set (post @ [b]). length x < length ?K" using post True by simp
    ultimately show ?thesis using pre unfolding res by blast
  next
    case False
    then have res: "foldl longer a (rest @ [b]) = b" by (simp add: longer_def)
    have all: "\<forall>x\<in>set (a # rest). length x \<le> length b"
    proof
      fix x assume "x \<in> set (a # rest)"
      then have "x \<in> set pre \<or> x = ?K \<or> x \<in> set post" using split
        by (metis Un_iff set_ConsD set_append)
      then show "length x \<le> length b" using pre post False by fastforce
    qed
    have "a # rest @ [b] = (a # rest) @ b # []" by simp
    then show ?thesis using all unfolding res by (metis empty_iff empty_set)
  qed
qed

lemma foldl_longer_mem: "foldl longer a rest \<in> set (a # rest)"
  using foldl_longer_split [of a rest] by (metis in_set_conv_decomp)

text \<open>No name that \<open>Object.prototype\<close> answers to contains, or lies in, a key of the table.\<close>

lemma prototype_names_match_no_key:
  "list_all (\<lambda>p. partialMatches p CARBON_FOOTPRINT_DB = []) Object_prototype_properties"
  by code_simp

text \<open>
  Every entry of the table is found under its key, is not 0, rounds to itself, and its key is
  left alone by the normalizer.
\<close>

lemma table_entries:
  "list_all (\<lambda>(k, v). map_of CARBON_FOOTPRINT_DB k = Some v \<and> v \<noteq> 0 \<and> normalizeIngredientName k = k
                       \<and> round2 (Num v) = Num v)
     CARBON_FOOTPRINT_DB"
  by code_simp

text \<open>
  The exact test is the truthiness of \<open>database[normalized]\<close>: it succeeds for an entry
  that is not 0, on any table, before the substring search is made.
\<close>

lemma findBest_exact:
  "map_of db k = Some v \<Longrightarrow> v \<noteq> 0 \<Longrightarrow> normalizeIngredientName k = k
   \<Longrightarrow> findBestIngredientMatch k db = Some \<lparr>key = k, match_confidence = Num 1\<rparr>"
  by (simp add: findBestIngredientMatch_def property_get_def)

text \<open>On the table of the repository this holds for every key.\<close>

lemma table_exact_match:
  assumes "k \<in> fst ` set CARBON_FOOTPRINT_DB"
  shows "findBestIngredientMatch k CARBON_FOOTPRINT_DB = Some \<lparr>key = k, match_confidence = Num 1.0\<rparr>"
proof -
  from assms obtain v where "(k, v) \<in> set CARBON_FOOTPRINT_DB" by auto
  with table_entries have "map_of CARBON_FOOTPRINT_DB k = Some v" "v \<noteq> 0" "normalizeIngredientName k = k"
    by (auto simp: list_all_iff)
  then show ?thesis by (simp add: findBest_exact)
qed

text \<open>
  C5, as the code has it. Let \<open>n\<close> be the canonical key that the matcher derives from its
  argument. If \<open>n\<close> is no key of the table and some key contains \<open>n\<close> or lies in \<open>n\<close>,
  the matcher returns, with confidence 0.8, a key \<open>K\<close> of greatest length among the
  matching keys, and of the matching keys as long as \<open>K\<close> it is the one that comes last in
  the order of the table: the matching keys before \<open>K\<close> are at most as long, those behind
  it are strictly shorter.
\<close>

theorem substring_match_last_longest:
  assumes "n = normalizeIngredientName x"
    and "n \<notin> fst ` set CARBON_FOOTPRINT_DB"
    and "\<exists>K \<in> fst ` set CARBON_FOOTPRINT_DB. string_includes n K \<or> string_includes K n"
  shows "\<exists>pre K post.
           partialMatches n CARBON_FOOTPRINT_DB = pre @ K # post
         \<and> (\<forall>k\<in>set pre. length k \<le> length K)
         \<and> (\<forall>k\<in>set post. length k < length K)
         \<and> findBestIngredientMatch x CARBON_FOOTPRINT_DB = Some \<lparr>key = K, match_confidence = Num 0.8\<rparr>"
proof -
  let ?ms = "partialMatches n CARBON_FOOTPRINT_DB"
  from assms(3) have "?ms \<noteq> []" by (auto simp: partialMatches_def filter_empty_conv)
  then obtain a rest where ms: "?ms = a # rest" by (cases ?ms) auto
  have "n \<notin> set Object_prototype_properties"
  proof
    assume "n \<in> set Object_prototype_properties"
    with prototype_names_match_no_key have "?ms = []" by (simp add: list_all_iff)
    with ms show False by simp
  qed
  with assms(2) have nt: "\<not> truthy (property_get CARBON_FOOTPRINT_DB n)"
    by (simp add: property_get_def map_of_eq_None_iff [THEN iffD2])
  have res: "findBestIngredientMatch x CARBON_FOOTPRINT_DB
               = Some \<lparr>key = foldl longer a rest, match_confidence = Num 0.8\<rparr>"
    using nt ms assms(1) by (simp add: findBestIngredientMatch_def Let_def)
  from foldl_longer_split [of a rest] ms res show ?thesis by metis
qed

text \<open>For \<open>beef lamb\<close> the matching keys are \<open>beef\<close> and \<open>lamb\<close>, and the later one is returned.\<close>

theorem substring_match_last_longest_witness:
  "findBestIngredientMatch ''beef lamb'' CARBON_FOOTPRINT_DB
     = Some \<lparr>key = ''lamb'', match_confidence = Num 0.8\<rparr>"
proof -
  have n: "''beef lamb'' = normalizeIngredientName ''beef lamb''" by code_simp
  have nk: "''beef lamb'' \<notin> fst ` set CARBON_FOOTPRINT_DB" by code_simp
  have ms: "partialMatches ''beef lamb'' CARBON_FOOTPRINT_DB = [''beef'', ''lamb'']" by code_simp
  have "''beef'' \<in> fst ` set CARBON_FOOTPRINT_DB" by code_simp
  moreover have "string_includes ''beef lamb'' ''beef''" by code_simp
  ultimately have ex: "\<exists>K \<in> fst ` set CARBON_FOOTPRINT_DB.
      string_includes ''beef lamb'' K \<or> string_includes K ''beef lamb''" by blast
  from substring_match_last_longest [OF n nk ex] obtain pre K post where
    split: "[''beef'', ''lamb''] = pre @ K # post"
    and post: "\<forall>k\<in>set post. length k < length K"
    and res: "findBestIngredientMatch ''beef lamb'' CARBON_FOOTPRINT_DB
                = Some \<lparr>key = K, match_confidence = Num 0.8\<rparr>"
    unfolding ms by blast
  from split have "(pre = [] \<and> K = ''beef'' \<and> post = [''lamb'']) \<or> (pre = [''beef''] \<and> K = ''lamb'' \<and> post = [])"
    by (auto simp: Cons_eq_append_conv)
  with post have "K = ''lamb''" by auto
  with res show ?thesis by simp
qed

text \<open>
  C5, as stated, at the canonical key \<open>beef lamb\<close>: it is no key of the table, the matching
  keys are \<open>beef\<close> and then \<open>lamb\<close>, both of the greatest length 4, and the matcher
  returns \<open>lamb\<close>, not the one met first.
\<close>

theorem tie_break_counterexample:
  "normalizeIngredientName ''beef lamb'' = ''beef lamb''
   \<and> ''beef lamb'' \<notin> fst ` set CARBON_FOOTPRINT_DB
   \<and> partialMatches ''beef lamb'' CARBON_FOOTPRINT_DB = [''beef'', ''lamb'']
   \<and> length ''beef'' = length ''lamb''
   \<and> findBestIngredientMatch ''beef lamb'' CARBON_FOOTPRINT_DB
       \<noteq> Some \<lparr>key = ''beef'', match_confidence = Num 0.8\<rparr>"
  by code_simp




subsection \<open>Values of the table\<close>

text \<open>
  C9. For the ingredient name \<open>constructor\<close> the read \<open>database[normalized]\<close> finds the
  function inherited from \<open>Object.prototype\<close>, which is truthy, so the matcher reports an
  exact match on a name the table does not own; the value read under it is that function,
  and \<open>carbon_kg\<close> is NaN instead of a value of the table.
\<close>

theorem constructor_carbon_NaN:
  "''constructor'' \<notin> fst ` set CARBON_FOOTPRINT_DB
   \<and> findBestIngredientMatch ''constructor'' CARBON_FOOTPRINT_DB
       = Some \<lparr>key = ''constructor'', match_confidence = Num 1.0\<rparr>
   \<and> ingredients (calculateCarbonFootprint d [\<lparr>raw_name = ''constructor'', raw_confidence = None\<rparr>] src p t)
       = [\<lparr>name = ''constructor'', carbon_kg = NaN, confidence = Num 0.8\<rparr>]"
  by code_simp

text \<open>
  Away from the names of \<open>Object.prototype\<close> the value is one of the table: the matcher
  returns a key of the table, and each value of the table rounds to itself.
\<close>

lemma table_key_value:
  assumes "k \<in> fst ` set CARBON_FOOTPRINT_DB"
  shows "\<exists>v. (k, v) \<in> set CARBON_FOOTPRINT_DB
             \<and> round2 (ToNumber (property_get CARBON_FOOTPRINT_DB k)) = Num v"
proof -
  from assms obtain v where v: "(k, v) \<in> set CARBON_FOOTPRINT_DB" by auto
  with table_entries have "map_of CARBON_FOOTPRINT_DB k = Some v" "round2 (Num v) = Num v"
    by (auto simp: list_all_iff)
  then have "round2 (ToNumber (property_get CARBON_FOOTPRINT_DB k)) = Num v"
    by (simp add: property_get_def)
  with v show ?thesis by blast
qed

lemma findBest_key_in_table:
  assumes "normalizeIngredientName x \<notin> set Object_prototype_properties"
  shows "\<exists>m. findBestIngredientMatch x CARBON_FOOTPRINT_DB = Some m
             \<and> key m \<in> fst ` set CARBON_FOOTPRINT_DB"
proof (cases "truthy (property_get CARBON_FOOTPRINT_DB (normalizeIngredientName x))")
  case True
  with assms have "map_of CARBON_FOOTPRINT_DB (normalizeIngredientName x) \<noteq> None"
    by (auto simp: property_get_def split: option.splits)
  then have "normalizeIngredientName x \<in> fst ` set CARBON_FOOTPRINT_DB"
    by (simp add: map_of_eq_None_iff)
  with True show ?thesis by (simp add: findBestIngredientMatch_def)
next
  case False
  show ?thesis
  proof (cases "partialMatches (normalizeIngredientName x) CARBON_FOOTPRINT_DB")
    case Nil
    have "''unknown'' \<in> fst ` set CARBON_FOOTPRINT_DB" by code_simp
    with False Nil show ?thesis by (simp add: findBestIngredientMatch_def)
  next
    case (Cons a rest)
    have "foldl longer a rest \<in> set (partialMatches (normalizeIngredientName x) CARBON_FOOTPRINT_DB)"
      using foldl_longer_mem [of a rest] Cons by simp
    then have "foldl longer a rest \<in> fst ` set CARBON_FOOTPRINT_DB"
      by (auto simp: partialMatches_def)
    with False Cons show ?thesis by (simp add: findBestIngredientMatch_def)
  qed
qed

lemma carbon_kg_from_table:
  assumes "normalizeIngredientName (normalizeIngredientName (raw_name i)) \<notin> set Object_prototype_properties"
  shows "\<exists>v \<in> snd ` set CARBON_FOOTPRINT_DB. carbon_kg (process_ingredient i) = Num v"
proof -
  from findBest_key_in_table [OF assms] obtain m where
    m: "findBestIngredientMatch (normalizeIngredientName (raw_name i)) CARBON_FOOTPRINT_DB = Some m"
    and k: "key m \<in> fst ` set CARBON_FOOTPRINT_DB" by blast
  from table_key_value [OF k] obtain v where v: "(key m, v) \<in> set CARBON_FOOTPRINT_DB"
    and r: "round2 (ToNumber (property_get CARBON_FOOTPRINT_DB (key m))) = Num v" by blast
  from m r have "carbon_kg (process_ingredient i) = Num v"
    by (simp add: process_ingredient_def carbon_mapping_def)
  moreover from v have "v \<in> snd ` set CARBON_FOOTPRINT_DB" by force
  ultimately show ?thesis by blast
qed

subsection \<open>Names that normalize to nothing\<close>

lemma findBest_empty:
  "findBestIngredientMatch [] CARBON_FOOTPRINT_DB
     = Some \<lparr>key = ''vegetable oil'', match_confidence = Num 0.8\<rparr>"
  by code_simp

lemma partialMatches_empty: "partialMatches [] CARBON_FOOTPRINT_DB = map fst CARBON_FOOTPRINT_DB"
  by code_simp

lemma vegetable_oil_value:
  "round2 (ToNumber (property_get CARBON_FOOTPRINT_DB ''vegetable oil'')) = Num 3.2"
  by code_simp

text \<open>
  C10. When the normalized name is the empty string, every key of the table matches, the
  matcher returns the longest of them, \<open>vegetable oil\<close>, with confidence 0.8 and not the
  fallback, and the resolved \<open>carbon_kg\<close> is 3.2, the value of that entry.
\<close>

theorem empty_name_matches_vegetable_oil:
  assumes "normalizeIngredientName nm = []"
  shows "partialMatches (normalizeIngredientName nm) CARBON_FOOTPRINT_DB = map fst CARBON_FOOTPRINT_DB
       \<and> findBestIngredientMatch (normalizeIngredientName nm) CARBON_FOOTPRINT_DB
           = Some \<lparr>key = ''vegetable oil'', match_confidence = Num 0.8\<rparr>
       \<and> carbon_kg (process_ingredient \<lparr>raw_name = nm, raw_confidence = c\<rparr>) = Num 3.2"
  using assms
  by (simp add: findBest_empty partialMatches_empty process_ingredient_def carbon_mapping_def
      vegetable_oil_value split: prod.split)

text \<open>A name of qualifier words and punctuation only.\<close>

theorem empty_name_matches_vegetable_oil_witness:
  "normalizeIngredientName ''Fresh, organic!'' = []
   \<and> carbon_kg (process_ingredient \<lparr>raw_name = ''Fresh, organic!'', raw_confidence = None\<rparr>) = Num 3.2"
proof -
  have e: "normalizeIngredientName ''Fresh, organic!'' = []" by code_simp
  from empty_name_matches_vegetable_oil [OF e] e show ?thesis by blast
qed

section \<open>Properties of the validation middleware\<close>

subsection \<open>The text validator\<close>

text \<open>
  A pattern of \<^const>\<open>suspiciousPatterns\<close> can only match a string that holds, in either
  case, the first character of the pattern.
\<close>

lemma startsWith_ci_hd:
  assumes "startsWith_ci s p" and "p \<noteq> []"
  shows "s \<noteq> [] \<and> toLowerCase_char (hd s) = toLowerCase_char (hd p)"
proof -
  from assms(2) obtain x xs where p: "p = x # xs" by (cases p) auto
  from assms(1) p have "s \<noteq> []" by (auto simp: startsWith_ci_def toLowerCase_def)
  then obtain y ys where s: "s = y # ys" by (cases s) auto
  from assms(1) show ?thesis unfolding p s by (simp add: startsWith_ci_def toLowerCase_def)
qed

lemma matches_here_hd:
  assumes "matches_here p s" and "first_literal p \<noteq> []"
  shows "s \<noteq> [] \<and> toLowerCase_char (hd s) = toLowerCase_char (hd (first_literal p))"
  using assms by (cases p) (auto simp: first_literal_def dest: startsWith_ci_hd)

lemma test_needs_initial:
  assumes "test p s" and "first_literal p \<noteq> []"
  shows "\<exists>c\<in>set s. toLowerCase_char c = toLowerCase_char (hd (first_literal p))"
  using assms
proof (induction s)
  case Nil
  then show ?case using matches_here_hd [of p "[]"] by simp
next
  case (Cons c cs)
  then show ?case using matches_here_hd [of p "c # cs"] by auto
qed

lemma pattern_initials:
  "map (\<lambda>p. (first_literal p \<noteq> [], toLowerCase_char (hd (first_literal p)))) suspiciousPatterns
     = map (Pair True) ''<joosudidueef.._pc''"
  by code_simp

lemma suspicious_needs_initial:
  assumes "is_suspicious s"
  shows "\<exists>c\<in>set s. toLowerCase_char c \<in> set ''<joosudidueef.._pc''"
proof -
  from assms obtain p where p: "p \<in> set suspiciousPatterns" and t: "test p s"
    by (auto simp: is_suspicious_def list_ex_iff)
  from p have "(first_literal p \<noteq> [], toLowerCase_char (hd (first_literal p)))
                 \<in> set (map (\<lambda>p. (first_literal p \<noteq> [], toLowerCase_char (hd (first_literal p)))) suspiciousPatterns)"
    by force
  then have "(first_literal p \<noteq> [], toLowerCase_char (hd (first_literal p)))
                 \<in> Pair True ` set ''<joosudidueef.._pc''"
    unfolding pattern_initials by simp
  then have ne: "first_literal p \<noteq> []"
    and ini: "toLowerCase_char (hd (first_literal p)) \<in> set ''<joosudidueef.._pc''" by auto
  from test_needs_initial [OF t ne] ini show ?thesis by auto
qed

text \<open>A body \<open>{dish: v}\<close> with \<open>v\<close> of at most 1000 characters is below the size limit.\<close>

lemma JSON_quoted_length_le: "JSON_quoted_length c \<le> 6"
  by (simp add: JSON_quoted_length_def)

lemma JSON_stringify_length_le: "JSON_stringify_length v \<le> 11 + 6 * length v"
proof -
  have "sum_list (map JSON_quoted_length v) \<le> 6 * length v"
    by (induction v) (simp_all add: add_le_mono [OF JSON_quoted_length_le])
  then show ?thesis by (simp add: JSON_stringify_length_def)
qed

lemma too_long_rejected:
  assumes "length v > 200"
  shows "validateTextEstimation v = Inl Body_too_large
       \<or> validateTextEstimation v = Inl (Invalid_request_data [(''dish'', messages String_max)])"
proof -
  from assms have "v \<noteq> []" by auto
  with assms show ?thesis
    by (simp add: validateTextEstimation_def textEstimationSchema_def)
qed

lemma too_long_max:
  assumes "length v > 200" and "length v \<le> 1000"
  shows "validateTextEstimation v = Inl (Invalid_request_data [(''dish'', messages String_max)])"
proof -
  from assms(1) have ne: "v \<noteq> []" by auto
  have "JSON_stringify_length v \<le> 11 + 6 * length v" by (rule JSON_stringify_length_le)
  with assms(2) have "\<not> JSON_stringify_length v > 10000" by simp
  with assms(1) ne show ?thesis
    by (simp add: validateTextEstimation_def textEstimationSchema_def)
qed

text \<open>
  C7, as the code has it. For a body \<open>{dish: s}\<close> whose string passes the character
  allow-list, the scan for malicious patterns and the test for repeated characters, the
  validator accepts (with the sanitized string) exactly when the length of \<open>s\<close> itself is
  at most 200 and the trimmed length is at least 1; otherwise it rejects. The upper bound
  is on the string as sent: Joi's \<open>max(200)\<close> sees the untrimmed value.
\<close>

theorem text_length_rule:
  assumes "matches_allowlist s" and "\<not> is_suspicious s" and "\<not> repeatedChars s"
  shows "(validateTextEstimation s = Inr (sanitizeTextInput s)) = (length s \<le> 200 \<and> 1 \<le> length (trim s))
       \<and> ((\<exists>e. validateTextEstimation s = Inl e) = (\<not> (length s \<le> 200 \<and> 1 \<le> length (trim s))))"
proof (cases "length s \<le> 200")
  case True
  have "JSON_stringify_length s \<le> 11 + 6 * length s" by (rule JSON_stringify_length_le)
  with True have small: "\<not> JSON_stringify_length s > 10000" by simp
  from assms(1) have ne: "s \<noteq> []" by (simp add: matches_allowlist_def)
  have schema: "textEstimationSchema s = (if length (trim s) = 0 then Inl String_empty else Inr s)"
    using True ne assms by (simp add: textEstimationSchema_def custom_def)
  show ?thesis
  proof (cases "length (trim s) = 0")
    case True
    with schema small show ?thesis by (simp add: validateTextEstimation_def)
  next
    case False
    then have "1 \<le> length (trim s)" by (cases "trim s") simp_all
    with schema small False \<open>length s \<le> 200\<close> show ?thesis
      by (simp add: validateTextEstimation_def)
  qed
next
  case False
  then have "length s > 200" by simp
  from too_long_rejected [OF this] False show ?thesis by auto
qed

theorem text_length_rule_witness:
  "matches_allowlist ''  Lamb Naan '' \<and> \<not> is_suspicious ''  Lamb Naan ''
   \<and> \<not> repeatedChars ''  Lamb Naan ''
   \<and> validateTextEstimation ''  Lamb Naan '' = Inr ''Lamb Naan''"
proof -
  have a: "matches_allowlist ''  Lamb Naan ''" by code_simp
  have "\<not> (\<exists>c\<in>set ''  Lamb Naan ''. toLowerCase_char c \<in> set ''<joosudidueef.._pc'')"
    by code_simp
  with suspicious_needs_initial have b: "\<not> is_suspicious ''  Lamb Naan ''" by blast
  have c: "\<not> repeatedChars ''  Lamb Naan ''" by code_simp
  have d: "length ''  Lamb Naan '' \<le> 200 \<and> 1 \<le> length (trim ''  Lamb Naan '')" by code_simp
  have e: "sanitizeTextInput ''  Lamb Naan '' = ''Lamb Naan''" by code_simp
  from text_length_rule [OF a b c] d e a b c show ?thesis by simp
qed

text \<open>
  C7, as stated, at the string of 67 times \<open>ab\<close> and a space: it passes the three checks,
  its length is 201 and its trimmed length 200, and it is rejected for exceeding 200
  characters.
\<close>

theorem trimmed_length_counterexample:
  "matches_allowlist (concat (replicate 67 ''ab ''))
   \<and> \<not> is_suspicious (concat (replicate 67 ''ab ''))
   \<and> \<not> repeatedChars (concat (replicate 67 ''ab ''))
   \<and> length (concat (replicate 67 ''ab '')) = 201
   \<and> length (trim (concat (replicate 67 ''ab ''))) = 200
   \<and> validateTextEstimation (concat (replicate 67 ''ab ''))
       = Inl (Invalid_request_data [(''dish'', ''Dish name cannot exceed 200 characters'')])"
proof -
  let ?s = "concat (replicate 67 ''ab '')"
  have chars: "set ?s = set ''ab ''" by simp
  have len: "length ?s = 201" by (simp add: length_concat sum_list_replicate)
  have "\<forall>c\<in>set ''ab ''. allowed_char c" by code_simp
  with chars len have a: "matches_allowlist ?s"
    unfolding matches_allowlist_def list_all_iff by (metis length_0_conv zero_neq_numeral)
  have "\<not> (\<exists>c\<in>set ''ab ''. toLowerCase_char c \<in> set ''<joosudidueef.._pc'')" by code_simp
  with suspicious_needs_initial [of ?s] chars have b: "\<not> is_suspicious ?s" by metis
  have c: "\<not> repeatedChars ?s" by code_simp
  have d: "length (trim ?s) = 200" by code_simp
  from len have e: "validateTextEstimation ?s
       = Inl (Invalid_request_data [(''dish'', ''Dish name cannot exceed 200 characters'')])"
    using too_long_max [of ?s] by simp
  from a b c len d e show ?thesis by blast
qed

text \<open>
  C8, as the code has it. The body \<open>{dish: "<script>alert(1)</script>"}\<close> is rejected, and
  the reason is that of the allow-list, invalid characters: the \<open>pattern\<close> rule runs
  before the \<open>custom\<close> function, whose scan would have found the string malicious.
\<close>

theorem script_tag_invalid_characters:
  "validateTextEstimation ''<script>alert(1)</script>''
     = Inl (Invalid_request_data [(''dish'', ''Dish name contains invalid characters'')])
   \<and> \<not> matches_allowlist ''<script>alert(1)</script>''
   \<and> is_suspicious ''<script>alert(1)</script>''"
  by code_simp

text \<open>C8, as stated: the reason reported is not the one of malicious content.\<close>

theorem script_tag_reason_counterexample:
  "validateTextEstimation ''<script>alert(1)</script>''
     \<noteq> Inl (Invalid_request_data [(''dish'', ''Dish name contains potentially malicious content'')])"
  by code_simp

subsection \<open>The upload validator\<close>

text \<open>
  \<open>imageHeaders\<close> has no entry for \<open>image/jpg\<close>, so no header is valid for that type,
  and no file declared with it is accepted.
\<close>

lemma isValidHeader_jpg: "isValidHeader ''image/jpg'' h = False"
  by (simp add: isValidHeader_def imageHeaders_def)

lemma jpg_never_accepted: "mimetype f = ''image/jpg'' \<Longrightarrow> validateImageUpload m (Some f) \<noteq> Inr ()"
  by (simp add: validateImageUpload_def isValidHeader_jpg split: option.splits)

text \<open>
  For the declared types with an entry, a file that passes the earlier checks is accepted
  exactly when its buffer begins with the signature of its declared type.
\<close>

lemma header_every_iff:
  assumes "length h \<le> length fh"
  shows "header_every h fh = (take (length h) fh = h)"
proof -
  have "header_every h fh = (\<forall>i<length h. i < length fh \<and> fh ! i = h ! i)"
    by (simp add: header_every_def list_all_length)
  also have "\<dots> = (\<forall>i<length h. take (length h) fh ! i = h ! i)"
    using assms by auto
  also have "\<dots> = (take (length h) fh = h)"
    using assms by (simp add: list_eq_iff_nth_eq)
  finally show ?thesis .
qed
lemma isValidHeader_iff:
  assumes "4 \<le> length fh"
  shows "isValidHeader mime fh =
           (\<exists>sig. (mime, sig) \<in> set imageHeaders \<and> take (length sig) fh = sig)"
  using assms
  by (auto simp: isValidHeader_def imageHeaders_def header_every_iff)

lemma signature_length: "(t, sig) \<in> set imageHeaders \<Longrightarrow> length sig \<le> 4"
  by (auto simp: imageHeaders_def)

lemma signature_check_iff:
  assumes "mimetype f \<in> set allowedTypes"
    and "real (file_size f) \<le> m * 1024 * 1024"
    and "buffer f = Some buf"
    and "originalname f = None \<or> originalname f = Some n \<and> length n \<le> 255
           \<and> \<not> list_ex (endsWith_ci n) suspiciousFilenames"
    and "100 \<le> length buf"
  shows "(validateImageUpload m (Some f) = Inr ())
           = (\<exists>sig. (mimetype f, sig) \<in> set imageHeaders \<and> take (length sig) buf = sig)"
proof -
  have same: "take (length sig) (take 4 buf) = take (length sig) buf"
    if "(mimetype f, sig) \<in> set imageHeaders" for sig
    using signature_length [OF that] by (simp add: min_absorb1)
  have "isValidHeader (mimetype f) (take 4 buf)
          = (\<exists>sig. (mimetype f, sig) \<in> set imageHeaders \<and> take (length sig) (take 4 buf) = sig)"
    by (rule isValidHeader_iff) (use assms(5) in simp)
  also have "\<dots> = (\<exists>sig. (mimetype f, sig) \<in> set imageHeaders \<and> take (length sig) buf = sig)"
    using same by metis
  finally have hdr: "isValidHeader (mimetype f) (take 4 buf)
          = (\<exists>sig. (mimetype f, sig) \<in> set imageHeaders \<and> take (length sig) buf = sig)" .
  have long: "\<not> (case originalname f of None \<Rightarrow> False | Some n \<Rightarrow> n \<noteq> [] \<and> length n > 255)"
    using assms(4) by (cases "originalname f") simp_all
  have ext: "\<not> (case originalname f of None \<Rightarrow> False
                 | Some n \<Rightarrow> n \<noteq> [] \<and> list_ex (endsWith_ci n) suspiciousFilenames)"
    using assms(4) by (cases "originalname f") simp_all
  have size_ok: "\<not> real (file_size f) > m * 1024 * 1024" using assms(2) by simp
  have len: "length buf \<noteq> 0" "\<not> length buf < 100" using assms(5) by auto
  show ?thesis
    unfolding validateImageUpload_def
    by (simp only: option.case assms(1) assms(3) size_ok long ext len hdr if_False if_True
        not_not simp_thms, simp split: if_splits)
qed

lemma test_jpg_name: "\<not> list_ex (endsWith_ci ''test.jpg'') suspiciousFilenames"
  by code_simp

text \<open>
  C2. A file of 1004 bytes that begins with the JPEG signature FF D8 FF, named
  \<open>test.jpg\<close>, passes every check before the signature test. Declared as
  \<open>image/jpg\<close>, a type of the allow-list, it is rejected for a header that does not
  match; declared as \<open>image/jpeg\<close> it is accepted.
\<close>

theorem jpg_declared_type_rejected:
  "validateImageUpload 10
     (Some \<lparr>buffer = Some ([0xFF, 0xD8, 0xFF, 0xE0] @ replicate 1000 0), mimetype = ''image/jpg'',
            file_size = 1004, originalname = Some ''test.jpg''\<rparr>)
     = Inl Header_mismatch
   \<and> validateImageUpload 10
     (Some \<lparr>buffer = Some ([0xFF, 0xD8, 0xFF, 0xE0] @ replicate 1000 0), mimetype = ''image/jpeg'',
            file_size = 1004, originalname = Some ''test.jpg''\<rparr>)
     = Inr ()"
proof -
  have jpeg: "isValidHeader ''image/jpeg'' [0xFF, 0xD8, 0xFF, 0xE0]"
    by (simp add: isValidHeader_iff imageHeaders_def)
  show ?thesis
    by (simp add: validateImageUpload_def allowedTypes_def isValidHeader_jpg test_jpg_name jpeg)
qed

end
